theory Spec2Isabelle
  imports Main
begin

section \<open>The deploy command of arkctl (v1/cmd/deploy/deploy.go)\<close>

text \<open>
  The file under verification is one Go source file: the \<open>deploy\<close> sub-command. It holds
  the package-level flag variables, the \<open>Args\<close> hook that derives \<open>doLocalBuildBundle\<close>,
  the four stages \<open>execMavenBuild\<close>, \<open>execParseBizModel\<close>, \<open>execUnInstall\<close> and
  \<open>execInstall\<close>, the context constructor \<open>generateContext\<close> and the driver
  \<open>executeDeploy\<close>.

  The embedding is shallow. Package-level variables are a record \<open>flags\<close> passed to every
  function. The mutable \<open>*contextutil.Context\<close> is a record \<open>world\<close>, passed in and
  returned updated; besides the key/value store it carries the trace of every observable
  call the code makes (logger, subprocess runner, filesystem, parser, module-runtime
  service), so that "this call was made" and "this call was not made" are statements about
  a list. Everything the file calls but does not define (the runner of package cmdutil, the
  parser and the service of package ark, \<open>os.Getwd\<close>, \<open>filepath.Walk\<close>) answers through a
  record \<open>env\<close> of functions, over which every theorem is universally quantified.
\<close>

subsection \<open>Values\<close>

text \<open>A Go \<open>error\<close> is only ever compared with \<open>nil\<close> here: \<open>None\<close> is \<open>nil\<close>.\<close>

type_synonym err = string

datatype ArkContainerRunType = ArkContainerRunTypeLocal | ArkContainerRunTypeK8s

text \<open>
  \<open>ark.ArkContainerRuntimeInfo\<close>, with the three fields this file sets. \<open>Port\<close> is a
  pointer to \<open>portFlag\<close> in the source; \<open>portFlag\<close> is written by flag parsing only, so
  the pointer is modelled by the value it points to. A field that is not set has Go's zero
  value, the empty string for \<open>Coordinate\<close>.
\<close>

record ArkContainerRuntimeInfo =
  RunType :: ArkContainerRunType
  Coordinate :: string
  Port :: int

record BizModel =
  BizName :: string
  BizVersion :: string

text \<open>\<open>fileutil.FileUrl(bundlePath)\<close> converts a string to the named type.\<close>

datatype FileUrl = FileUrl string

text \<open>
  What the context stores under a key is an \<open>interface{}\<close>; the type assertions of the
  uninstall and install stages panic unless the dynamic type is the asserted one. The
  dynamic types that occur are the constructors.
\<close>

datatype ctxval =
    VArkService
  | VBizModel BizModel
  | VArkContainerRuntimeInfo ArkContainerRuntimeInfo

definition ctxKeyArkService :: string where
  "ctxKeyArkService = ''ark.Service''"

definition ctxKeyBizModel :: string where
  "ctxKeyBizModel = ''ark.BizModel''"

definition ctxKeyArkContainerRuntimeInfo :: string where
  "ctxKeyArkContainerRuntimeInfo = ''ark.ContainerRuntimeInfo''"

subsection \<open>Package-level variables and the command line\<close>

record flags =
  buildFlag :: string
  bundleFlag :: string
  portFlag :: int
  podFlag :: string
  doLocalBuildBundle :: bool

text \<open>
  The command line as the flag parser saw it: for each flag, the value given, or \<open>None\<close>
  when the flag does not occur (\<open>cmd.Flags().Changed\<close> is then false).
\<close>

record cli =
  build_arg :: "string option"
  bundle_arg :: "string option"
  pod_arg :: "string option"
  port_arg :: "int option"

text \<open>The \<open>var\<close> block and the defaults registered in \<open>init\<close>.\<close>

definition init_flags :: flags where
  "init_flags =
     \<lparr>buildFlag = '''', bundleFlag = '''', portFlag = 1238, podFlag = '''',
      doLocalBuildBundle = False\<rparr>"

text \<open>Flag parsing stores each value given into the variable bound by \<open>StringVar\<close>/\<open>IntVar\<close>.\<close>

definition parseFlags :: "cli \<Rightarrow> flags \<Rightarrow> flags" where
  "parseFlags c F =
     F\<lparr>buildFlag := (case build_arg c of Some d \<Rightarrow> d | None \<Rightarrow> buildFlag F),
       bundleFlag := (case bundle_arg c of Some b \<Rightarrow> b | None \<Rightarrow> bundleFlag F),
       podFlag := (case pod_arg c of Some p \<Rightarrow> p | None \<Rightarrow> podFlag F),
       portFlag := (case port_arg c of Some n \<Rightarrow> n | None \<Rightarrow> portFlag F)\<rparr>"

subsection \<open>The world: context store and trace of calls\<close>

datatype event =
    LogInfo string
  | LogError string
  | CmdBuildCommandWithWorkDir string string "string list"
  | CmdExec
  | CmdWait
  | CmdGetExitError
  | OsGetwd
  | FsWalk string
  | ArkParseBizModel FileUrl
  | ArkBuildService
  | ArkUnInstallBiz BizModel ArkContainerRuntimeInfo
  | ArkInstallBiz BizModel ArkContainerRuntimeInfo
  | CtxPut string ctxval
  | CtxValue string

record world =
  ctx :: "string \<rightharpoonup> ctxval"
  trace :: "event list"

definition emit :: "event \<Rightarrow> world \<Rightarrow> world" where
  "emit e w = w\<lparr>trace := trace w @ [e]\<rparr>"

text \<open>\<open>ctx.Put(key, value)\<close> and \<open>ctx.Value(key)\<close>.\<close>

definition Put :: "string \<Rightarrow> ctxval \<Rightarrow> world \<Rightarrow> world" where
  "Put k v w = w\<lparr>ctx := (ctx w)(k \<mapsto> v), trace := trace w @ [CtxPut k v]\<rparr>"

definition Value :: "string \<Rightarrow> world \<Rightarrow> ctxval option \<times> world" where
  "Value k w = (ctx w k, emit (CtxValue k) w)"

text \<open>
  How a call of a stage ends: it returns its boolean, it panics (a nil dereference or a
  failed type assertion unwinds through the driver), or it never returns (a receive on a
  channel on which nothing is ever sent).
\<close>

datatype outcome = Returned bool | Panicked | Blocked

subsection \<open>The environment\<close>

text \<open>
  \<open>os.FileInfo\<close> as far as the walk callback reads it, and one invocation of the callback
  by \<open>filepath.Walk\<close>: the path, the \<open>FileInfo\<close> (\<open>None\<close> is the nil interface) and the
  error argument.
\<close>

record FileInfo =
  Name :: string
  IsDir :: bool

record walk_entry =
  path :: string
  info :: "FileInfo option"
  werr :: "err option"

text \<open>
  The collaborators. \<open>os_Getwd\<close> is the directory \<open>os.Getwd\<close> returns (the empty string when
  it fails, its error being discarded by the source). The three runner fields give, for the
  command built with a working directory, the result of \<open>Exec()\<close>, what the channel of
  \<open>Wait()\<close> delivers (\<open>None\<close>: nothing, ever; \<open>Some None\<close>: a nil error, also what a closed
  channel delivers) and the result of \<open>GetExitError()\<close>. \<open>fs_Walk\<close> is the sequence of
  callback invocations \<open>filepath.Walk\<close> makes on a root when the callback returns nil
  every time, which the callback of this file does.
\<close>

record env =
  os_Getwd :: string
  cmd_Exec :: "string \<Rightarrow> err option"
  cmd_Wait :: "string \<Rightarrow> err option option"
  cmd_GetExitError :: "string \<Rightarrow> err option"
  fs_Walk :: "string \<Rightarrow> walk_entry list"
  ark_ParseBizModel :: "FileUrl \<Rightarrow> err + BizModel"
  ark_UnInstallBiz :: "BizModel \<Rightarrow> ArkContainerRuntimeInfo \<Rightarrow> err option"
  ark_InstallBiz :: "BizModel \<Rightarrow> ArkContainerRuntimeInfo \<Rightarrow> err option"

subsection \<open>The Args hook\<close>

text \<open>
  Lines 79 to 89. \<open>Changed("bundle")\<close> is \<open>bundle_arg c \<noteq> None\<close>.
\<close>

definition Args :: "env \<Rightarrow> cli \<Rightarrow> flags \<Rightarrow> flags" where
  "Args E c F =
     (let F1 = F\<lparr>doLocalBuildBundle := \<not> (bundle_arg c \<noteq> None)\<rparr>
      in if doLocalBuildBundle F1 \<and> \<not> (build_arg c \<noteq> None)
         then F1\<lparr>buildFlag := os_Getwd E\<rparr>
         else F1)"

definition deploy_flags :: "env \<Rightarrow> cli \<Rightarrow> flags" where
  "deploy_flags E c = Args E c (parseFlags c init_flags)"

subsection \<open>String helpers of package strings\<close>

text \<open>
  \<open>strings.HasSuffix(s, suffix)\<close> is
  \<open>len(s) >= len(suffix) && s[len(s)-len(suffix):] == suffix\<close>, and \<open>strings.HasPrefix\<close>
  the same at the front.
\<close>

definition HasSuffix :: "string \<Rightarrow> string \<Rightarrow> bool" where
  "HasSuffix s sfx \<longleftrightarrow> length s \<ge> length sfx \<and> drop (length s - length sfx) s = sfx"

definition HasPrefix :: "string \<Rightarrow> string \<Rightarrow> bool" where
  "HasPrefix s pfx \<longleftrightarrow> length s \<ge> length pfx \<and> take (length pfx) s = pfx"

definition ark_biz_suffix :: string where
  "ark_biz_suffix = ''-ark-biz.jar''"

subsection \<open>Stage 0: execMavenBuild\<close>

text \<open>
  Lines 93 to 127. The branch on \<open>doLocalBuildBundle\<close> only logs; control continues with
  the construction of the command. Likewise the branch on the error of \<open>Exec()\<close> only
  logs. The goroutine that prints the lines of \<open>mvn.Output()\<close> touches neither the context
  nor the result and is left out.
\<close>

definition execMavenBuild :: "env \<Rightarrow> flags \<Rightarrow> world \<Rightarrow> outcome \<times> world" where
  "execMavenBuild E F w =
     (let w1 = (if \<not> doLocalBuildBundle F then emit (LogInfo ''build bundle skipped!'') w else w);
          w2 = emit (CmdBuildCommandWithWorkDir (buildFlag F) ''mvn''
                      [''clean'', ''package'', ''-Dmaven.test.skip=true'']) w1;
          w3 = emit (LogInfo ''start to build bundle.'') w2;
          w4 = emit CmdExec w3;
          w5 = (case cmd_Exec E (buildFlag F) of
                  Some e \<Rightarrow> emit (LogError ''build bundle failed!'') w4
                | None \<Rightarrow> w4);
          w6 = emit CmdWait w5
      in case cmd_Wait E (buildFlag F) of
           None \<Rightarrow> (Blocked, w6)
         | Some (Some e) \<Rightarrow> (Returned False, emit (LogError ''build bundle failed!'') w6)
         | Some None \<Rightarrow>
             (let w7 = emit CmdGetExitError w6
              in case cmd_GetExitError E (buildFlag F) of
                   Some e \<Rightarrow> (Returned False, emit (LogError ''build bundle failed!'') w7)
                 | None \<Rightarrow> (Returned True, w7)))"

subsection \<open>Stage 1: execParseBizModel\<close>

text \<open>
  The callback of lines 141 to 146: it calls \<open>info.IsDir()\<close> without looking at \<open>err\<close>, so
  a nil \<open>info\<close> is a nil dereference (\<open>None\<close>); otherwise it returns the new value of the
  captured variable \<open>bundlePath\<close>. The callback itself always returns nil, so the walk
  visits every entry.
\<close>

definition walkFn :: "walk_entry \<Rightarrow> string \<Rightarrow> string option" where
  "walkFn e bundlePath =
     (case info e of
        None \<Rightarrow> None
      | Some i \<Rightarrow>
          Some (if \<not> IsDir i \<and> HasSuffix (Name i) ark_biz_suffix then path e else bundlePath))"

fun filepath_Walk :: "walk_entry list \<Rightarrow> string \<Rightarrow> string option" where
  "filepath_Walk [] bundlePath = Some bundlePath"
| "filepath_Walk (e # es) bundlePath =
     (case walkFn e bundlePath of
        None \<Rightarrow> None
      | Some bundlePath' \<Rightarrow> filepath_Walk es bundlePath')"

text \<open>
  Lines 134 to 153: the value of \<open>bundlePath\<close> when line 155 is reached (\<open>Inr\<close>), or how the
  stage ended before (\<open>Inl\<close>).
\<close>

definition locateBundle :: "env \<Rightarrow> flags \<Rightarrow> world \<Rightarrow> (outcome + string) \<times> world" where
  "locateBundle E F w =
     (let bundlePath = bundleFlag F
      in if doLocalBuildBundle F
         then (let (searchdir, w1) =
                     (if buildFlag F = '''' then (os_Getwd E, emit OsGetwd w)
                      else (buildFlag F, w));
                   w2 = emit (FsWalk searchdir) w1
               in case filepath_Walk (fs_Walk E searchdir) bundlePath of
                    None \<Rightarrow> (Inl Panicked, w2)
                  | Some bundlePath' \<Rightarrow>
                      if \<not> HasSuffix bundlePath' ark_biz_suffix
                      then (Inl (Returned False),
                            emit (LogError ''can not find pre built biz bundle in build dir!'') w2)
                      else (Inr (''file://'' @ bundlePath'), w2))
         else (Inr bundlePath, w))"

text \<open>Lines 129 to 164.\<close>

definition execParseBizModel :: "env \<Rightarrow> flags \<Rightarrow> world \<Rightarrow> outcome \<times> world" where
  "execParseBizModel E F w =
     (case locateBundle E F w of
        (Inl out, w1) \<Rightarrow> (out, w1)
      | (Inr bundlePath, w1) \<Rightarrow>
          (let w2 = emit (ArkParseBizModel (FileUrl bundlePath)) w1
           in case ark_ParseBizModel E (FileUrl bundlePath) of
                Inl e \<Rightarrow> (Returned False, emit (LogError ''parse biz model failed!'') w2)
              | Inr bizModel \<Rightarrow> (Returned True, Put ctxKeyBizModel (VBizModel bizModel) w2)))"

subsection \<open>Stages 2 and 3: execUnInstall and execInstall\<close>

text \<open>
  The \<open>var\<close> block of each stage reads the three keys in order and asserts their dynamic
  types; a missing key (a nil interface) or another dynamic type panics at the assertion.
\<close>

definition readContext ::
  "world \<Rightarrow> (BizModel \<times> ArkContainerRuntimeInfo) option \<times> world" where
  "readContext w =
     (case Value ctxKeyArkService w of
        (Some VArkService, w1) \<Rightarrow>
          (case Value ctxKeyBizModel w1 of
             (Some (VBizModel bizModel), w2) \<Rightarrow>
               (case Value ctxKeyArkContainerRuntimeInfo w2 of
                  (Some (VArkContainerRuntimeInfo ri), w3) \<Rightarrow> (Some (bizModel, ri), w3)
                | (_, w3) \<Rightarrow> (None, w3))
           | (_, w2) \<Rightarrow> (None, w2))
      | (_, w1) \<Rightarrow> (None, w1))"

text \<open>Lines 167 to 191.\<close>

definition execUnInstall :: "env \<Rightarrow> flags \<Rightarrow> world \<Rightarrow> outcome \<times> world" where
  "execUnInstall E F w =
     (case readContext w of
        (None, w1) \<Rightarrow> (Panicked, w1)
      | (Some (bizModel, ri), w1) \<Rightarrow>
          (let w2 = emit (LogInfo ''start to uninstall bundle.'') w1;
               w3 = emit (ArkUnInstallBiz bizModel ri) w2
           in case ark_UnInstallBiz E bizModel ri of
                Some e \<Rightarrow> (Returned False, emit (LogError ''uninstall biz failed!'') w3)
              | None \<Rightarrow> (Returned True, emit (LogInfo ''uninstall biz success!'') w3)))"

text \<open>Lines 194 to 217.\<close>

definition execInstall :: "env \<Rightarrow> flags \<Rightarrow> world \<Rightarrow> outcome \<times> world" where
  "execInstall E F w =
     (case readContext w of
        (None, w1) \<Rightarrow> (Panicked, w1)
      | (Some (bizModel, ri), w1) \<Rightarrow>
          (let w2 = emit (LogInfo ''start to install bundle.'') w1;
               w3 = emit (ArkInstallBiz bizModel ri) w2
           in case ark_InstallBiz E bizModel ri of
                Some e \<Rightarrow> (Returned False, emit (LogError ''install biz failed!'') w3)
              | None \<Rightarrow> (Returned True, emit (LogInfo ''install biz success!'') w3)))"

subsection \<open>generateContext\<close>

text \<open>Lines 219 to 238, from the empty context of \<open>contextutil.NewContext\<close>.\<close>

definition generateContext :: "flags \<Rightarrow> world" where
  "generateContext F =
     (let c0 = \<lparr>ctx = Map.empty, trace = []\<rparr>;
          c1 = emit ArkBuildService c0;
          c2 = Put ctxKeyArkService VArkService c1;
          ri0 = \<lparr>RunType = ArkContainerRunTypeLocal, Coordinate = '''', Port = portFlag F\<rparr>;
          ri = (if podFlag F \<noteq> ''''
                then ri0\<lparr>RunType := ArkContainerRunTypeK8s, Coordinate := podFlag F\<rparr>
                else ri0)
      in Put ctxKeyArkContainerRuntimeInfo (VArkContainerRuntimeInfo ri) c2)"

subsection \<open>The driver: executeDeploy\<close>

text \<open>
  How the loop of lines 255 to 259 ends: it runs off the end of \<open>todos\<close> (line 261), it
  takes the \<open>return\<close> of line 257 in iteration \<open>i\<close>, or the call of \<open>todos[i]\<close> panics or
  never returns. Beside the context the driver's model returns its own record of the
  calls it made: the index of each stage called with how the call ended, in order.
\<close>

datatype run_end = Finished | ReturnedAt nat | PanickedAt nat | BlockedAt nat

fun run_todos ::
  "('w \<Rightarrow> outcome \<times> 'w) list \<Rightarrow> nat \<Rightarrow> 'w \<Rightarrow> run_end \<times> (nat \<times> outcome) list \<times> 'w" where
  "run_todos [] i c = (Finished, [], c)"
| "run_todos (todo # rest) i c =
     (case todo c of
        (Returned True, c') \<Rightarrow>
          (case run_todos rest (Suc i) c' of
             (fin, calls, c'') \<Rightarrow> (fin, (i, Returned True) # calls, c''))
      | (Returned False, c') \<Rightarrow> (ReturnedAt i, [(i, Returned False)], c')
      | (Panicked, c') \<Rightarrow> (PanickedAt i, [(i, Panicked)], c')
      | (Blocked, c') \<Rightarrow> (BlockedAt i, [(i, Blocked)], c'))"

definition todos :: "env \<Rightarrow> flags \<Rightarrow> (world \<Rightarrow> outcome \<times> world) list" where
  "todos E F = [execMavenBuild E F, execParseBizModel E F, execUnInstall E F, execInstall E F]"

definition executeDeploy :: "env \<Rightarrow> flags \<Rightarrow> run_end \<times> (nat \<times> outcome) list \<times> world" where
  "executeDeploy E F = run_todos (todos E F) 0 (generateContext F)"

text \<open>The command as a whole: flag parsing, the Args hook, then Run.\<close>

definition deploy :: "env \<Rightarrow> cli \<Rightarrow> run_end \<times> (nat \<times> outcome) list \<times> world" where
  "deploy E c = executeDeploy E (deploy_flags E c)"

subsection \<open>The pipeline state machine of the specification\<close>

text \<open>
  The specification describes the driver as a machine over the states \<open>Pending i\<close> (one for
  each stage \<open>i\<close> of the pipeline), \<open>Aborted i\<close> and \<open>Succeeded\<close>. \<open>sm_next n s b\<close> is the
  transition a pipeline of \<open>n\<close> stages takes from \<open>s\<close> when the stage of \<open>s\<close> returns \<open>b\<close>:
  from \<open>Pending i\<close>, success leads to \<open>Pending (i + 1)\<close> or, for the last stage, to
  \<open>Succeeded\<close>, and failure leads to \<open>Aborted i\<close>. \<open>Aborted\<close> and \<open>Succeeded\<close> are terminal:
  they have no transition. \<open>sm_feed\<close> takes the transitions for a sequence of stage
  outcomes; it has no state for a sequence in which a stage did not return. These
  definitions follow the specification, not the source; the driver above is compared with
  them.
\<close>

datatype pstate = Pending nat | Aborted nat | Succeeded

fun sm_next :: "nat \<Rightarrow> pstate \<Rightarrow> bool \<Rightarrow> pstate option" where
  "sm_next n (Pending i) b =
     (if i < n
      then Some (if b then (if Suc i < n then Pending (Suc i) else Succeeded) else Aborted i)
      else None)"
| "sm_next n (Aborted i) b = None"
| "sm_next n Succeeded b = None"

fun sm_feed :: "nat \<Rightarrow> pstate \<Rightarrow> outcome list \<Rightarrow> pstate option" where
  "sm_feed n s [] = Some s"
| "sm_feed n s (Returned b # outs) =
     (case sm_next n s b of None \<Rightarrow> None | Some s' \<Rightarrow> sm_feed n s' outs)"
| "sm_feed n s (Panicked # outs) = None"
| "sm_feed n s (Blocked # outs) = None"

subsection \<open>Auxiliary notions for the statements\<close>

text \<open>The calls of \<open>n\<close> stages in a row, from index \<open>i\<close>, that all returned true.\<close>

definition oks :: "nat \<Rightarrow> nat \<Rightarrow> (nat \<times> outcome) list" where
  "oks i n = map (\<lambda>j. (j, Returned True)) [i..<i + n]"

text \<open>The end of the loop when the call of stage \<open>i\<close> ends with an outcome other than true.\<close>

fun end_of :: "nat \<Rightarrow> outcome \<Rightarrow> run_end" where
  "end_of i (Returned b) = ReturnedAt i"
| "end_of i Panicked = PanickedAt i"
| "end_of i Blocked = BlockedAt i"

text \<open>
  The context that calling the stages \<open>ts\<close> one after the other leaves, from the context
  \<open>c\<close>. It is defined without the driver: each stage is applied to what the stage before
  it left.
\<close>

definition thread :: "('w \<Rightarrow> outcome \<times> 'w) list \<Rightarrow> 'w \<Rightarrow> 'w" where
  "thread ts c = foldl (\<lambda>c' t. snd (t c')) c ts"

text \<open>The writes to the context, and the reads of it, that a trace records, in order.\<close>

fun puts :: "event list \<Rightarrow> (string \<times> ctxval) list" where
  "puts [] = []"
| "puts (CtxPut k v # es) = (k, v) # puts es"
| "puts (e # es) = puts es"

fun reads :: "event list \<Rightarrow> string list" where
  "reads [] = []"
| "reads (CtxValue k # es) = k # reads es"
| "reads (e # es) = reads es"

text \<open>The locators handed to the parser, and the roots handed to the walk, in order.\<close>

fun parsed :: "event list \<Rightarrow> FileUrl list" where
  "parsed [] = []"
| "parsed (ArkParseBizModel u # es) = u # parsed es"
| "parsed (e # es) = parsed es"

fun walked :: "event list \<Rightarrow> string list" where
  "walked [] = []"
| "walked (FsWalk d # es) = d # walked es"
| "walked (e # es) = walked es"

text \<open>The condition under which the walk callback takes an entry's path.\<close>

definition matches :: "walk_entry \<Rightarrow> bool" where
  "matches e =
     (case info e of
        None \<Rightarrow> False
      | Some i \<Rightarrow> \<not> IsDir i \<and> HasSuffix (Name i) ark_biz_suffix)"

text \<open>The directory the resolve stage hands to the walk (lines 136 to 139).\<close>

definition searchdir :: "env \<Rightarrow> flags \<Rightarrow> string" where
  "searchdir E F = (if buildFlag F = '''' then os_Getwd E else buildFlag F)"

text \<open>
  What \<open>filepath.Walk\<close> and \<open>os.Lstat\<close> guarantee of an entry that is not a directory: the
  name its \<open>FileInfo\<close> reports is the last element of the path the callback receives, so
  the path ends with the name.
\<close>

definition name_is_base :: "walk_entry \<Rightarrow> bool" where
  "name_is_base e =
     (case info e of None \<Rightarrow> True | Some i \<Rightarrow> IsDir i \<or> HasSuffix (path e) (Name i))"

subsection \<open>Sample environments and command lines\<close>

text \<open>
  The end-to-end scenario of the specification: the project \<open>/tmp/proj\<close> holds, after the
  build, \<open>target/app-1.0-ark-biz.jar\<close>; every collaborator succeeds.
\<close>

definition proj_tree :: "walk_entry list" where
  "proj_tree =
     [\<lparr>path = ''/tmp/proj'', info = Some \<lparr>Name = ''proj'', IsDir = True\<rparr>, werr = None\<rparr>,
      \<lparr>path = ''/tmp/proj/pom.xml'',
       info = Some \<lparr>Name = ''pom.xml'', IsDir = False\<rparr>, werr = None\<rparr>,
      \<lparr>path = ''/tmp/proj/target'',
       info = Some \<lparr>Name = ''target'', IsDir = True\<rparr>, werr = None\<rparr>,
      \<lparr>path = ''/tmp/proj/target/app-1.0-ark-biz.jar'',
       info = Some \<lparr>Name = ''app-1.0-ark-biz.jar'', IsDir = False\<rparr>, werr = None\<rparr>,
      \<lparr>path = ''/tmp/proj/target/app-1.0.jar'',
       info = Some \<lparr>Name = ''app-1.0.jar'', IsDir = False\<rparr>, werr = None\<rparr>]"

definition no_error :: "string \<Rightarrow> err option" where
  "no_error dir = None"

definition nil_on_channel :: "string \<Rightarrow> err option option" where
  "nil_on_channel dir = Some None"

definition walk_proj :: "string \<Rightarrow> walk_entry list" where
  "walk_proj root = (if root = ''/tmp/proj'' then proj_tree else [])"

definition parse_app :: "FileUrl \<Rightarrow> err + BizModel" where
  "parse_app u = Inr \<lparr>BizName = ''app'', BizVersion = ''1.0''\<rparr>"

definition service_ok :: "BizModel \<Rightarrow> ArkContainerRuntimeInfo \<Rightarrow> err option" where
  "service_ok b t = None"

definition env_ok :: env where
  "env_ok =
     \<lparr>os_Getwd = ''/home/dev'', cmd_Exec = no_error, cmd_Wait = nil_on_channel,
      cmd_GetExitError = no_error, fs_Walk = walk_proj, ark_ParseBizModel = parse_app,
      ark_UnInstallBiz = service_ok, ark_InstallBiz = service_ok\<rparr>"

definition cli_build :: cli where
  "cli_build =
     \<lparr>build_arg = Some ''/tmp/proj'', bundle_arg = None, pod_arg = None, port_arg = Some 8080\<rparr>"

text \<open>The same project before any build: the walk finds no module artifact.\<close>

definition walk_unbuilt :: "string \<Rightarrow> walk_entry list" where
  "walk_unbuilt root = take 3 proj_tree"

definition env_no_bundle :: env where
  "env_no_bundle = env_ok\<lparr>fs_Walk := walk_unbuilt\<rparr>"

text \<open>A build directory that does not exist: the walk reports the root with a nil \<open>FileInfo\<close>.\<close>

definition walk_missing_root :: "string \<Rightarrow> walk_entry list" where
  "walk_missing_root root =
     [\<lparr>path = root, info = None, werr = Some ''lstat: no such file or directory''\<rparr>]"

definition env_walk_error :: env where
  "env_walk_error = env_ok\<lparr>fs_Walk := walk_missing_root\<rparr>"

text \<open>A project with two modules, each with its artifact.\<close>

definition multi_tree :: "walk_entry list" where
  "multi_tree =
     [\<lparr>path = ''/tmp/proj'', info = Some \<lparr>Name = ''proj'', IsDir = True\<rparr>, werr = None\<rparr>,
      \<lparr>path = ''/tmp/proj/a/target/a-1.0-ark-biz.jar'',
       info = Some \<lparr>Name = ''a-1.0-ark-biz.jar'', IsDir = False\<rparr>, werr = None\<rparr>,
      \<lparr>path = ''/tmp/proj/b/target/b-1.0-ark-biz.jar'',
       info = Some \<lparr>Name = ''b-1.0-ark-biz.jar'', IsDir = False\<rparr>, werr = None\<rparr>,
      \<lparr>path = ''/tmp/proj/pom.xml'',
       info = Some \<lparr>Name = ''pom.xml'', IsDir = False\<rparr>, werr = None\<rparr>]"

definition walk_multi :: "string \<Rightarrow> walk_entry list" where
  "walk_multi root = multi_tree"

definition env_multi :: env where
  "env_multi = env_ok\<lparr>fs_Walk := walk_multi\<rparr>"

text \<open>Command lines that supply the bundle, for a local target and for a pod.\<close>

definition cli_bundle :: cli where
  "cli_bundle =
     \<lparr>build_arg = None, bundle_arg = Some ''/tmp/app-1.0-ark-biz.jar'', pod_arg = None,
      port_arg = None\<rparr>"

definition cli_pod :: cli where
  "cli_pod =
     \<lparr>build_arg = None, bundle_arg = Some ''file:///tmp/app-1.0-ark-biz.jar'',
      pod_arg = Some ''ns/name'', port_arg = None\<rparr>"

text \<open>Maven runs and exits with status 1.\<close>

definition exit_status_1 :: "string \<Rightarrow> err option" where
  "exit_status_1 dir = Some ''exit status 1''"

definition env_mvn_fails :: env where
  "env_mvn_fails = env_ok\<lparr>cmd_GetExitError := exit_status_1\<rparr>"

text \<open>
  Maven cannot be started: \<open>Exec()\<close> returns an error. In \<open>env_launch_fails\<close> the channel of
  \<open>Wait()\<close> then delivers nil, as a closed channel does; in \<open>env_launch_hangs\<close> nothing is
  ever sent on it.
\<close>

definition launch_error :: "string \<Rightarrow> err option" where
  "launch_error dir = Some ''exec: mvn: executable file not found in PATH''"

definition env_launch_fails :: env where
  "env_launch_fails = env_ok\<lparr>cmd_Exec := launch_error\<rparr>"

definition nothing_on_channel :: "string \<Rightarrow> err option option" where
  "nothing_on_channel dir = None"

definition env_launch_hangs :: env where
  "env_launch_hangs = env_launch_fails\<lparr>cmd_Wait := nothing_on_channel\<rparr>"

section \<open>The driver\<close>

lemmas model_defs =
  deploy_def deploy_flags_def Args_def parseFlags_def init_flags_def executeDeploy_def todos_def
  generateContext_def execMavenBuild_def execParseBizModel_def locateBundle_def walkFn_def
  execUnInstall_def execInstall_def readContext_def Value_def Put_def emit_def HasSuffix_def
  HasPrefix_def ark_biz_suffix_def ctxKeyArkService_def ctxKeyBizModel_def
  ctxKeyArkContainerRuntimeInfo_def searchdir_def matches_def name_is_base_def Let_def

lemmas sample_defs =
  env_ok_def cli_build_def proj_tree_def no_error_def nil_on_channel_def walk_proj_def
  parse_app_def service_ok_def walk_unbuilt_def env_no_bundle_def walk_missing_root_def
  env_walk_error_def cli_bundle_def multi_tree_def walk_multi_def env_multi_def cli_pod_def
  exit_status_1_def env_mvn_fails_def launch_error_def env_launch_fails_def
  nothing_on_channel_def env_launch_hangs_def

lemma oks_0: "oks i 0 = []"
  by (simp add: oks_def)

lemma oks_Suc: "oks i (Suc n) = (i, Returned True) # oks (Suc i) n"
  by (simp add: oks_def upt_rec)

lemma map_snd_oks: "map snd (oks i m) = replicate m (Returned True)"
  by (induction m arbitrary: i) (simp_all add: oks_0 oks_Suc)

lemma map_fst_oks: "map fst (oks i m) = [i..<i + m]"
  by (simp add: oks_def comp_def)

lemma take_oks: "k \<le> m \<Longrightarrow> take k (oks i m) = oks i k"
  by (simp add: oks_def take_map)

lemma length_oks: "length (oks i m) = m"
  by (simp add: oks_def)

lemma nth_oks: "k < m \<Longrightarrow> oks i m ! k = (i + k, Returned True)"
  by (simp add: oks_def)

text \<open>
  The shape of every run of the loop: either all stages were called and returned true, or
  the calls are some stages that returned true followed by one that did not, at which the
  loop ended.
\<close>

lemma run_todos_shape:
  "run_todos ts i c = (fin, calls, c') \<Longrightarrow>
     (fin = Finished \<and> calls = oks i (length ts)) \<or>
     (\<exists>n out. n < length ts \<and> out \<noteq> Returned True \<and> calls = oks i n @ [(i + n, out)] \<and>
        fin = end_of (i + n) out)"
proof (induction ts arbitrary: i c fin calls c')
  case Nil
  then show ?case by (simp add: oks_0)
next
  case (Cons t ts)
  obtain out c1 where t: "t c = (out, c1)" by (cases "t c")
  show ?case
  proof (cases "out = Returned True")
    case True
    obtain fin2 calls2 c2 where r: "run_todos ts (Suc i) c1 = (fin2, calls2, c2)"
      by (cases "run_todos ts (Suc i) c1")
    from Cons.prems t True r have eq: "fin = fin2" "calls = (i, Returned True) # calls2"
      by auto
    from Cons.IH[OF r] show ?thesis
    proof
      assume "fin2 = Finished \<and> calls2 = oks (Suc i) (length ts)"
      then show ?thesis using eq by (simp add: oks_Suc)
    next
      assume "\<exists>n out. n < length ts \<and> out \<noteq> Returned True \<and>
                calls2 = oks (Suc i) n @ [(Suc i + n, out)] \<and> fin2 = end_of (Suc i + n) out"
      then obtain n out' where h: "n < length ts" "out' \<noteq> Returned True"
          "calls2 = oks (Suc i) n @ [(Suc i + n, out')]" "fin2 = end_of (Suc i + n) out'"
        by blast
      have "Suc n < length (t # ts) \<and> out' \<noteq> Returned True \<and>
            calls = oks i (Suc n) @ [(i + Suc n, out')] \<and> fin = end_of (i + Suc n) out'"
        using h eq by (simp add: oks_Suc)
      then show ?thesis by blast
    qed
  next
    case False
    then have "calls = oks i 0 @ [(i + 0, out)] \<and> fin = end_of (i + 0) out"
      using Cons.prems t by (cases out) (auto simp: oks_0 split: bool.splits)
    then show ?thesis using False by (metis length_greater_0_conv list.simps(3))
  qed
qed

text \<open>
  What each call was applied to and what it gave: the outcome recorded for the \<open>k\<close>-th call
  is the result of stage \<open>k\<close> on the context that the stages before it left, and the context
  the loop ends with is the one the last stage called left.
\<close>

lemma thread_Cons: "thread (t # ts) c = thread ts (snd (t c))"
  by (simp add: thread_def)

lemma thread_Nil: "thread [] c = c"
  by (simp add: thread_def)

lemma run_todos_threads:
  "run_todos ts i c = (fin, calls, c') \<Longrightarrow>
     c' = thread (take (length calls) ts) c \<and>
     (\<forall>k<length calls. snd (calls ! k) = fst ((ts ! k) (thread (take k ts) c)))"
proof (induction ts arbitrary: i c fin calls c')
  case Nil
  then show ?case by (simp add: thread_Nil)
next
  case (Cons t ts)
  obtain out c1 where t: "t c = (out, c1)" by (cases "t c")
  show ?case
  proof (cases "out = Returned True")
    case True
    obtain fin2 calls2 c2 where r: "run_todos ts (Suc i) c1 = (fin2, calls2, c2)"
      by (cases "run_todos ts (Suc i) c1")
    from Cons.prems t True r have eq: "c' = c2" "calls = (i, Returned True) # calls2"
      by auto
    from Cons.IH[OF r] have ih: "c2 = thread (take (length calls2) ts) c1"
      "\<forall>k<length calls2. snd (calls2 ! k) = fst ((ts ! k) (thread (take k ts) c1))"
      by simp_all
    have "snd (calls ! k) = fst (((t # ts) ! k) (thread (take k (t # ts)) c))"
      if "k < length calls" for k
    proof (cases k)
      case 0
      then show ?thesis using eq t True by (simp add: thread_Nil)
    next
      case (Suc k')
      then show ?thesis using that eq t ih(2) by (simp add: thread_Cons)
    qed
    then show ?thesis using eq ih(1) t by (simp add: thread_Cons)
  next
    case False
    then have "calls = [(i, out)] \<and> c' = c1"
      using Cons.prems t by (cases out) (auto split: bool.splits)
    then show ?thesis using t by (simp add: thread_Cons thread_Nil)
  qed
qed

text \<open>The machine of the specification on a run of successes, and on what ends a run.\<close>

lemma sm_feed_append:
  "sm_feed n s (xs @ ys) = (case sm_feed n s xs of None \<Rightarrow> None | Some s' \<Rightarrow> sm_feed n s' ys)"
proof (induction xs arbitrary: s)
  case Nil
  then show ?case by simp
next
  case (Cons x xs)
  then show ?case by (cases x) (simp_all split: option.splits)
qed

lemma sm_oks_pending:
  "i + m < n \<Longrightarrow> sm_feed n (Pending i) (replicate m (Returned True)) = Some (Pending (i + m))"
  by (induction m arbitrary: i) simp_all

lemma sm_oks_succeeded:
  assumes "i + m = n" and "0 < m"
  shows "sm_feed n (Pending i) (replicate m (Returned True)) = Some Succeeded"
proof -
  from assms obtain m' where m: "m = Suc m'" by (cases m) auto
  have "replicate m (Returned True) = replicate m' (Returned True) @ [Returned True]"
    unfolding m by (simp add: replicate_append_same)
  moreover have "sm_feed n (Pending i) (replicate m' (Returned True)) = Some (Pending (i + m'))"
    using assms m by (intro sm_oks_pending) simp
  ultimately show ?thesis using assms m by (simp add: sm_feed_append)
qed

lemma sm_stop:
  assumes "out \<noteq> Returned True" and "m < n"
  shows "sm_feed n (Pending m) [out] =
    (case end_of m out of
       Finished \<Rightarrow> Some Succeeded
     | ReturnedAt i \<Rightarrow> Some (Aborted i)
     | PanickedAt i \<Rightarrow> None
     | BlockedAt i \<Rightarrow> None)"
  using assms by (cases out) (auto split: bool.splits)

lemma run_todos_machine:
  assumes r: "run_todos ts 0 c = (fin, calls, c')" and ne: "ts \<noteq> []"
  shows "calls \<noteq> [] \<and> length calls \<le> length ts \<and>
    (\<forall>k<length calls. calls ! k = (k, fst ((ts ! k) (thread (take k ts) c)))) \<and>
    c' = thread (take (length calls) ts) c \<and>
    (\<forall>k<length calls - 1. snd (calls ! k) = Returned True) \<and>
    (snd (last calls) = Returned True \<longrightarrow> length calls = length ts) \<and>
    fin = (if snd (last calls) = Returned True then Finished
           else end_of (length calls - 1) (snd (last calls))) \<and>
    (\<forall>k<length calls. sm_feed (length ts) (Pending 0) (map snd (take k calls)) = Some (Pending k)) \<and>
    sm_feed (length ts) (Pending 0) (map snd calls) =
      (case fin of
         Finished \<Rightarrow> Some Succeeded
       | ReturnedAt i \<Rightarrow> Some (Aborted i)
       | PanickedAt i \<Rightarrow> None
       | BlockedAt i \<Rightarrow> None)"
proof -
  note th = run_todos_threads[OF r]
  from run_todos_shape[OF r] consider
    (fin) "fin = Finished" "calls = oks 0 (length ts)"
  | (stop) n out where "n < length ts" "out \<noteq> Returned True" "calls = oks 0 n @ [(n, out)]"
      "fin = end_of n out"
    by auto
  then show ?thesis
  proof cases
    case fin
    from ne obtain m where m: "length ts = Suc m" by (cases ts) auto
    have fstk: "\<forall>k<length calls. fst (calls ! k) = k" using fin by (simp add: length_oks nth_oks)
    have idx: "\<forall>k<length calls. calls ! k = (k, fst ((ts ! k) (thread (take k ts) c)))"
      using fstk th by (simp add: prod_eq_iff)
    have tr: "\<forall>k<length calls - 1. snd (calls ! k) = Returned True"
      using fin by (simp add: length_oks nth_oks)
    have la: "snd (last calls) = Returned True"
      using fin m by (simp add: oks_def)
    have a: "\<forall>k<length calls. sm_feed (length ts) (Pending 0) (map snd (take k calls)) = Some (Pending k)"
      using fin by (simp add: take_oks map_snd_oks sm_oks_pending length_oks)
    have b: "sm_feed (length ts) (Pending 0) (map snd calls) = Some Succeeded"
      using fin ne by (simp add: map_snd_oks sm_oks_succeeded)
    have ne': "calls \<noteq> []" using fin m by (simp add: oks_def)
    show ?thesis using fin(1) idx tr la a b ne' th fin(2) by (simp add: length_oks)
  next
    case stop
    have len: "length calls = Suc n" using stop by (simp add: length_oks)
    have fstk: "\<forall>k<length calls. fst (calls ! k) = k"
      using stop by (simp add: length_oks nth_oks nth_append less_Suc_eq)
    have idx: "\<forall>k<length calls. calls ! k = (k, fst ((ts ! k) (thread (take k ts) c)))"
      using fstk th by (simp add: prod_eq_iff)
    have tr: "\<forall>k<length calls - 1. snd (calls ! k) = Returned True"
      using stop by (simp add: length_oks nth_oks nth_append)
    have la: "snd (last calls) = out" using stop by simp
    have a: "\<forall>k<length calls. sm_feed (length ts) (Pending 0) (map snd (take k calls)) = Some (Pending k)"
      using stop by (simp add: take_oks map_snd_oks sm_oks_pending length_oks less_Suc_eq_le)
    have b: "sm_feed (length ts) (Pending 0) (map snd calls) =
      (case fin of Finished \<Rightarrow> Some Succeeded | ReturnedAt i \<Rightarrow> Some (Aborted i)
       | PanickedAt i \<Rightarrow> None | BlockedAt i \<Rightarrow> None)"
      using stop sm_stop[OF stop(2,1)]
      by (simp add: map_snd_oks sm_feed_append sm_oks_pending del: sm_feed.simps)
    have ne': "calls \<noteq> []" using stop by simp
    show ?thesis using stop(1,2,4) len idx tr la a b th ne' by simp
  qed
qed

text \<open>Two sample runs, evaluated.\<close>

lemma sample_run_ok:
  "fst (deploy env_ok cli_build) = Finished"
  "fst (snd (deploy env_ok cli_build)) =
     [(0, Returned True), (1, Returned True), (2, Returned True), (3, Returned True)]"
  by (simp_all add: model_defs sample_defs)

lemma sample_run_no_bundle:
  "fst (deploy env_no_bundle cli_build) = ReturnedAt 1"
  "fst (snd (deploy env_no_bundle cli_build)) = [(0, Returned True), (1, Returned False)]"
  by (simp_all add: model_defs sample_defs)

text \<open>
  Claim C2. In every run of the loop over any list of stages, from any context: if the
  call of stage \<open>i\<close> returned false, then the loop ended by the return of iteration \<open>i\<close>,
  that call is the last one made, no stage was called twice, and no stage of a greater index
  was called. \<open>executeDeploy\<close> is this loop on the four stages of \<open>todos\<close>.
\<close>

theorem fail_fast_short_circuit:
  assumes r: "run_todos ts 0 c = (fin, calls, c')"
    and f: "(i, Returned False) \<in> set calls"
  shows "fin = ReturnedAt i \<and> last calls = (i, Returned False) \<and> distinct (map fst calls) \<and>
         (\<forall>(j, out) \<in> set calls. j \<le> i)"
proof -
  from run_todos_shape[OF r] consider
    (fin) "fin = Finished" "calls = oks 0 (length ts)"
  | (stop) n out where "n < length ts" "out \<noteq> Returned True" "calls = oks 0 n @ [(0 + n, out)]"
      "fin = end_of (0 + n) out"
    by auto
  then show ?thesis
  proof cases
    case fin
    with f show ?thesis by (auto simp: oks_def)
  next
    case stop
    with f have "i = n" "out = Returned False" by (auto simp: oks_def)
    with stop show ?thesis by (auto simp: oks_def comp_def)
  qed
qed

theorem fail_fast_short_circuit_witness:
  "(1, Returned False) \<in> set (fst (snd (deploy env_no_bundle cli_build))) \<and>
   fst (deploy env_no_bundle cli_build) = ReturnedAt 1 \<and>
   last (fst (snd (deploy env_no_bundle cli_build))) = (1, Returned False) \<and>
   distinct (map fst (fst (snd (deploy env_no_bundle cli_build))))"
proof -
  let ?F = "deploy_flags env_no_bundle cli_build"
  let ?r = "deploy env_no_bundle cli_build"
  have run: "run_todos (todos env_no_bundle ?F) 0 (generateContext ?F)
               = (fst ?r, fst (snd ?r), snd (snd ?r))"
    by (simp add: deploy_def executeDeploy_def)
  have f: "(1, Returned False) \<in> set (fst (snd ?r))"
    by (simp add: sample_run_no_bundle)
  from fail_fast_short_circuit[OF run f] f show ?thesis by simp
qed

text \<open>
  Claim C3. Every run of \<open>executeDeploy\<close> calls the stages build, resolve, uninstall,
  install in this order, from the first one, each at most once and none skipped: the
  \<open>k\<close>-th call is the call of stage \<open>k\<close>, applied to the context that the stages before it
  left, and the outcome recorded for it is what that stage returned there. Every call but
  the last returned true. The run ends \<open>Finished\<close> exactly when the last call returned true,
  which is then the call of the fourth stage; otherwise it ends at the stage last called,
  by the return of line 257 when that stage returned false. The context the run ends with
  is the one the last stage called left. Stage \<open>k\<close> is called when the machine of the
  specification, fed with the outcomes of the calls before it, is in \<open>Pending k\<close>, and the
  machine ends in \<open>Succeeded\<close> for a run that ends \<open>Finished\<close> and in \<open>Aborted i\<close> for a run
  that ends by the return in iteration \<open>i\<close>. For a run in which a stage panics or never
  returns the machine has no transition.
\<close>

theorem executeDeploy_state_machine:
  assumes r: "executeDeploy E F = (fin, calls, c')"
  shows "let ts = [execMavenBuild E F, execParseBizModel E F, execUnInstall E F, execInstall E F]
    in calls \<noteq> [] \<and> length calls \<le> 4 \<and>
       (\<forall>k<length calls. calls ! k = (k, fst ((ts ! k) (thread (take k ts) (generateContext F))))) \<and>
       c' = thread (take (length calls) ts) (generateContext F) \<and>
       (\<forall>k<length calls - 1. snd (calls ! k) = Returned True) \<and>
       (snd (last calls) = Returned True \<longrightarrow> length calls = 4) \<and>
       fin = (if snd (last calls) = Returned True then Finished
              else end_of (length calls - 1) (snd (last calls))) \<and>
       (\<forall>k<length calls. sm_feed 4 (Pending 0) (map snd (take k calls)) = Some (Pending k)) \<and>
       sm_feed 4 (Pending 0) (map snd calls) =
         (case fin of
            Finished \<Rightarrow> Some Succeeded
          | ReturnedAt i \<Rightarrow> Some (Aborted i)
          | PanickedAt i \<Rightarrow> None
          | BlockedAt i \<Rightarrow> None)"
proof -
  have len: "length (todos E F) = 4" and ne: "todos E F \<noteq> []"
    by (simp_all add: todos_def)
  from r have run: "run_todos (todos E F) 0 (generateContext F) = (fin, calls, c')"
    by (simp add: executeDeploy_def)
  note m = run_todos_machine[OF run ne, unfolded len]
  show ?thesis unfolding Let_def using m[unfolded todos_def] .
qed

theorem executeDeploy_state_machine_witness:
  "fst (deploy env_no_bundle cli_build) = ReturnedAt 1 \<and>
   fst (snd (deploy env_no_bundle cli_build)) ! 1 =
     (1, fst (execParseBizModel env_no_bundle (deploy_flags env_no_bundle cli_build)
               (snd (execMavenBuild env_no_bundle (deploy_flags env_no_bundle cli_build)
                      (generateContext (deploy_flags env_no_bundle cli_build)))))) \<and>
   snd (snd (deploy env_no_bundle cli_build)) =
     snd (execParseBizModel env_no_bundle (deploy_flags env_no_bundle cli_build)
           (snd (execMavenBuild env_no_bundle (deploy_flags env_no_bundle cli_build)
                  (generateContext (deploy_flags env_no_bundle cli_build))))) \<and>
   sm_feed 4 (Pending 0) (map snd (fst (snd (deploy env_no_bundle cli_build)))) =
     Some (Aborted 1) \<and>
   fst (deploy env_ok cli_build) = Finished \<and>
   sm_feed 4 (Pending 0) (map snd (fst (snd (deploy env_ok cli_build)))) = Some Succeeded"
proof -
  let ?F = "deploy_flags env_no_bundle cli_build"
  let ?r = "deploy env_no_bundle cli_build"
  let ?G = "deploy_flags env_ok cli_build"
  let ?s = "deploy env_ok cli_build"
  have run: "executeDeploy env_no_bundle ?F = (fst ?r, fst (snd ?r), snd (snd ?r))"
    by (simp add: deploy_def)
  have run': "executeDeploy env_ok ?G = (fst ?s, fst (snd ?s), snd (snd ?s))"
    by (simp add: deploy_def)
  have l: "length (fst (snd ?r)) = 2" by (simp add: sample_run_no_bundle)
  from executeDeploy_state_machine[OF run] executeDeploy_state_machine[OF run']
  show ?thesis
    by (simp add: Let_def l sample_run_no_bundle(1) sample_run_ok(1) thread_def
        eval_nat_numeral)
qed

section \<open>The resolve stage\<close>

lemma emit_simps [simp]:
  "trace (emit e w) = trace w @ [e]" "ctx (emit e w) = ctx w"
  by (simp_all add: emit_def)

lemma Put_simps [simp]:
  "trace (Put k v w) = trace w @ [CtxPut k v]" "ctx (Put k v w) = (ctx w)(k \<mapsto> v)"
  by (simp_all add: Put_def)

lemma parsed_append [simp]: "parsed (xs @ ys) = parsed xs @ parsed ys"
  by (induction xs rule: parsed.induct) simp_all

lemma walked_append [simp]: "walked (xs @ ys) = walked xs @ walked ys"
  by (induction xs rule: walked.induct) simp_all

lemma puts_append [simp]: "puts (xs @ ys) = puts xs @ puts ys"
  by (induction xs rule: puts.induct) simp_all

lemma reads_append [simp]: "reads (xs @ ys) = reads xs @ reads ys"
  by (induction xs rule: reads.induct) simp_all




text \<open>The walk: it panics at an entry without \<open>FileInfo\<close>, and otherwise keeps the last match.\<close>

lemma walk_panics: "\<exists>e\<in>set es. info e = None \<Longrightarrow> filepath_Walk es bp = None"
  by (induction es arbitrary: bp) (auto simp: walkFn_def split: option.splits)


lemma walkFn_ignores_err: "walkFn (e\<lparr>werr := x\<rparr>) bp = walkFn e bp"
  by (simp add: walkFn_def split: option.splits)


lemma locateBundle_local:
  "doLocalBuildBundle F \<Longrightarrow>
   locateBundle E F w =
     (let w2 = emit (FsWalk (searchdir E F)) (if buildFlag F = [] then emit OsGetwd w else w)
      in case filepath_Walk (fs_Walk E (searchdir E F)) (bundleFlag F) of
           None \<Rightarrow> (Inl Panicked, w2)
         | Some bp \<Rightarrow>
             if \<not> HasSuffix bp ark_biz_suffix
             then (Inl (Returned False),
                   emit (LogError (''can not find pre built biz bundle in build dir!'')) w2)
             else (Inr ((''file://'') @ bp), w2))"
  by (simp add: locateBundle_def searchdir_def Let_def)

lemma locate_panic:
  assumes "doLocalBuildBundle F" and "\<exists>e\<in>set (fs_Walk E (searchdir E F)). info e = None"
  shows "locateBundle E F w =
     (Inl Panicked, emit (FsWalk (searchdir E F)) (if buildFlag F = [] then emit OsGetwd w else w))"
  by (simp add: locateBundle_local[OF assms(1)] walk_panics[OF assms(2)])

lemma resolve_panic:
  assumes "doLocalBuildBundle F" and "\<exists>e\<in>set (fs_Walk E (searchdir E F)). info e = None"
  shows "execParseBizModel E F w =
     (Panicked, emit (FsWalk (searchdir E F)) (if buildFlag F = [] then emit OsGetwd w else w))"
  by (simp add: execParseBizModel_def locate_panic[OF assms])









lemma run_todos_head_panics:
  "fst (t c) = Panicked \<Longrightarrow> run_todos (t # rest) i c = (PanickedAt i, [(i, Panicked)], snd (t c))"
  by (cases "t c") simp



lemma sample_run_walk_error:
  "fst (deploy env_walk_error cli_build) = PanickedAt 1"
  "fst (snd (deploy env_walk_error cli_build)) = [(0, Returned True), (1, Panicked)]"
  by (simp_all add: model_defs sample_defs)



text \<open>
  Claim C10. The walk callback reads its \<open>FileInfo\<close> whatever the error argument is: its
  result does not depend on that argument, and it is a nil dereference exactly when the
  \<open>FileInfo\<close> is nil. So whenever the resolve stage searches (no bundle was supplied) a
  directory whose traversal reports some entry with a nil \<open>FileInfo\<close>, the stage panics: it
  does not return false, the panic unwinds through the driver's loop, and no later stage
  is called.
\<close>

theorem resolve_panics_on_nil_FileInfo:
  assumes "doLocalBuildBundle F"
    and "\<exists>e\<in>set (fs_Walk E (searchdir E F)). info e = None"
  shows "walkFn (e\<lparr>werr := x\<rparr>) bp = walkFn e bp \<and>
         (walkFn e bp = None \<longleftrightarrow> info e = None) \<and>
         fst (execParseBizModel E F w) = Panicked \<and>
         fst (execParseBizModel E F w) \<noteq> Returned False \<and>
         run_todos (execParseBizModel E F # rest) i w =
           (PanickedAt i, [(i, Panicked)], snd (execParseBizModel E F w))"
proof -
  have p: "fst (execParseBizModel E F w) = Panicked" by (simp add: resolve_panic[OF assms])
  have n: "walkFn e bp = None \<longleftrightarrow> info e = None"
    by (simp add: walkFn_def split: option.splits)
  from p n run_todos_head_panics[where t = "execParseBizModel E F" and c = w, OF p]
  show ?thesis
    by (simp add: walkFn_ignores_err del: run_todos.simps)
qed

theorem resolve_panics_on_nil_FileInfo_witness:
  "fst (execParseBizModel env_walk_error (deploy_flags env_walk_error cli_build)
         (generateContext (deploy_flags env_walk_error cli_build))) = Panicked \<and>
   fst (deploy env_walk_error cli_build) = PanickedAt 1 \<and>
   fst (snd (deploy env_walk_error cli_build)) = [(0, Returned True), (1, Panicked)]"
proof -
  let ?F = "deploy_flags env_walk_error cli_build"
  have a: "doLocalBuildBundle ?F" by (simp add: model_defs sample_defs)
  have b: "\<exists>e\<in>set (fs_Walk env_walk_error (searchdir env_walk_error ?F)). info e = None"
    by (simp add: model_defs sample_defs)
  from resolve_panics_on_nil_FileInfo[OF a b, of _ _ _ "generateContext ?F"]
  show ?thesis by (simp add: sample_run_walk_error)
qed








section \<open>The build stage and the context\<close>

text \<open>One iteration of the loop, and the loop on the four stages written out.\<close>

lemma run_todos_step:
  "run_todos (t # rest) i c =
     (if fst (t c) = Returned True
      then (case run_todos rest (Suc i) (snd (t c)) of
              (fin, calls, c'') \<Rightarrow> (fin, (i, Returned True) # calls, c''))
      else (end_of i (fst (t c)), [(i, fst (t c))], snd (t c)))"
  by (cases "t c"; cases "fst (t c)") (auto split: bool.splits)

lemma executeDeploy_unfold:
  "executeDeploy E F =
     (let r0 = execMavenBuild E F (generateContext F);
          r1 = execParseBizModel E F (snd r0);
          r2 = execUnInstall E F (snd r1);
          r3 = execInstall E F (snd r2)
      in if fst r0 \<noteq> Returned True then (end_of 0 (fst r0), [(0, fst r0)], snd r0)
         else if fst r1 \<noteq> Returned True
           then (end_of 1 (fst r1), [(0, Returned True), (1, fst r1)], snd r1)
         else if fst r2 \<noteq> Returned True
           then (end_of 2 (fst r2), [(0, Returned True), (1, Returned True), (2, fst r2)], snd r2)
         else if fst r3 \<noteq> Returned True
           then (end_of 3 (fst r3),
                 [(0, Returned True), (1, Returned True), (2, Returned True), (3, fst r3)], snd r3)
         else (Finished,
               [(0, Returned True), (1, Returned True), (2, Returned True), (3, Returned True)],
               snd r3))"
proof -
  have n: "Suc (Suc 0) = 2" "Suc (Suc (Suc 0)) = 3" by simp_all
  show ?thesis
    unfolding executeDeploy_def todos_def Let_def
    by (simp only: run_todos_step run_todos.simps(1) n One_nat_def[symmetric] prod.case if_not_P
        split: if_splits) (simp add: n)
qed

text \<open>What each stage does to the context store and which reads and writes it records.\<close>

lemma generate_effects:
  "map fst (puts (trace (generateContext F))) = [ctxKeyArkService, ctxKeyArkContainerRuntimeInfo]"
  "reads (trace (generateContext F)) = []"
  by (simp_all add: generateContext_def Let_def)

lemma build_effects:
  "puts (trace (snd (execMavenBuild E F w))) = puts (trace w)"
  "reads (trace (snd (execMavenBuild E F w))) = reads (trace w)"
  "ctx (snd (execMavenBuild E F w)) = ctx w"
  by (simp_all add: execMavenBuild_def Let_def split: option.splits)

lemma build_calls_runner:
  "\<exists>tl. trace (snd (execMavenBuild E F w)) =
     trace w @ (if \<not> doLocalBuildBundle F then [LogInfo ''build bundle skipped!''] else []) @
     [CmdBuildCommandWithWorkDir (buildFlag F) ''mvn''
        [''clean'', ''package'', ''-Dmaven.test.skip=true''],
      LogInfo ''start to build bundle.'', CmdExec] @ tl"
  by (simp add: execMavenBuild_def Let_def split: option.splits)

lemma build_ignores_exec:
  "fst (execMavenBuild (E\<lparr>cmd_Exec := x\<rparr>) F w) = fst (execMavenBuild E F w)"
  by (simp add: execMavenBuild_def Let_def split: option.splits)

lemma locate_effects:
  "puts (trace (snd (locateBundle E F w))) = puts (trace w)"
  "reads (trace (snd (locateBundle E F w))) = reads (trace w)"
  "ctx (snd (locateBundle E F w)) = ctx w"
  by (simp_all add: locateBundle_def Let_def split: option.splits)

lemma locate_never_true: "fst (locateBundle E F w) \<noteq> Inl (Returned True)"
  by (simp add: locateBundle_def Let_def split: option.splits)

lemma resolve_effects:
  "map fst (puts (trace (snd (execParseBizModel E F w)))) =
     map fst (puts (trace w)) @
     (if fst (execParseBizModel E F w) = Returned True then [ctxKeyBizModel] else [])"
  "reads (trace (snd (execParseBizModel E F w))) = reads (trace w)"
  "k \<noteq> ctxKeyBizModel \<Longrightarrow> ctx (snd (execParseBizModel E F w)) k = ctx w k"
proof -
  obtain r w1 where l: "locateBundle E F w = (r, w1)" by (cases "locateBundle E F w")
  from locate_effects[of E F w] l
  have e: "puts (trace w1) = puts (trace w)" "reads (trace w1) = reads (trace w)" "ctx w1 = ctx w"
    by simp_all
  have "map fst (puts (trace (snd (execParseBizModel E F w)))) =
     map fst (puts (trace w)) @
     (if fst (execParseBizModel E F w) = Returned True then [ctxKeyBizModel] else []) \<and>
    reads (trace (snd (execParseBizModel E F w))) = reads (trace w) \<and>
    (k \<noteq> ctxKeyBizModel \<longrightarrow> ctx (snd (execParseBizModel E F w)) k = ctx w k)"
  proof (cases r)
    case (Inl out)
    with locate_never_true[of E F w] l have "out \<noteq> Returned True" by auto
    moreover have "execParseBizModel E F w = (out, w1)"
      using l Inl by (simp add: execParseBizModel_def)
    ultimately show ?thesis using e by simp
  next
    case (Inr bp)
    show ?thesis
    proof (cases "ark_ParseBizModel E (FileUrl bp)")
      case (Inl err)
      then have "execParseBizModel E F w =
          (Returned False,
           emit (LogError ''parse biz model failed!'') (emit (ArkParseBizModel (FileUrl bp)) w1))"
        using l Inr by (simp add: execParseBizModel_def Let_def)
      then show ?thesis using e by simp
    next
      case (Inr m)
      then have "execParseBizModel E F w =
          (Returned True,
           Put ctxKeyBizModel (VBizModel m) (emit (ArkParseBizModel (FileUrl bp)) w1))"
        using l \<open>r = Inr bp\<close> by (simp add: execParseBizModel_def Let_def)
      then show ?thesis using e by simp
    qed
  qed
  then show "map fst (puts (trace (snd (execParseBizModel E F w)))) =
     map fst (puts (trace w)) @
     (if fst (execParseBizModel E F w) = Returned True then [ctxKeyBizModel] else [])"
    and "reads (trace (snd (execParseBizModel E F w))) = reads (trace w)"
    and "k \<noteq> ctxKeyBizModel \<Longrightarrow> ctx (snd (execParseBizModel E F w)) k = ctx w k"
    by simp_all
qed

lemma readContext_effects:
  "puts (trace (snd (readContext w))) = puts (trace w)"
  "ctx (snd (readContext w)) = ctx w"
  "\<exists>n\<le>3. reads (trace (snd (readContext w))) =
      reads (trace w) @ take n [ctxKeyArkService, ctxKeyBizModel, ctxKeyArkContainerRuntimeInfo]"
proof -
  show "puts (trace (snd (readContext w))) = puts (trace w)"
    by (simp add: readContext_def Value_def split: option.splits ctxval.splits)
  show "ctx (snd (readContext w)) = ctx w"
    by (simp add: readContext_def Value_def split: option.splits ctxval.splits)
  let ?ks = "[ctxKeyArkService, ctxKeyBizModel, ctxKeyArkContainerRuntimeInfo]"
  have "reads (trace (snd (readContext w))) = reads (trace w) @ take 1 ?ks
    \<or> reads (trace (snd (readContext w))) = reads (trace w) @ take 2 ?ks
    \<or> reads (trace (snd (readContext w))) = reads (trace w) @ take 3 ?ks"
    by (simp add: readContext_def Value_def split: option.splits ctxval.splits)
  then consider "reads (trace (snd (readContext w))) = reads (trace w) @ take 1 ?ks"
    | "reads (trace (snd (readContext w))) = reads (trace w) @ take 2 ?ks"
    | "reads (trace (snd (readContext w))) = reads (trace w) @ take 3 ?ks"
    by blast
  then show "\<exists>n\<le>3. reads (trace (snd (readContext w))) = reads (trace w) @ take n ?ks"
  proof cases
    case 1
    then have "(1::nat) \<le> 3 \<and> reads (trace (snd (readContext w))) = reads (trace w) @ take 1 ?ks"
      by simp
    then show ?thesis by blast
  next
    case 2
    then have "(2::nat) \<le> 3 \<and> reads (trace (snd (readContext w))) = reads (trace w) @ take 2 ?ks"
      by simp
    then show ?thesis by blast
  next
    case 3
    then have "(3::nat) \<le> 3 \<and> reads (trace (snd (readContext w))) = reads (trace w) @ take 3 ?ks"
      by simp
    then show ?thesis by blast
  qed
qed

lemma uninstall_effects:
  "puts (trace (snd (execUnInstall E F w))) = puts (trace w)"
  "ctx (snd (execUnInstall E F w)) = ctx w"
  "reads (trace (snd (execUnInstall E F w))) = reads (trace (snd (readContext w)))"
  using readContext_effects(1,2)[of w]
  by (cases "readContext w"; auto simp: execUnInstall_def Let_def split: option.splits)+

lemma install_effects:
  "puts (trace (snd (execInstall E F w))) = puts (trace w)"
  "ctx (snd (execInstall E F w)) = ctx w"
  "reads (trace (snd (execInstall E F w))) = reads (trace (snd (readContext w)))"
  using readContext_effects(1,2)[of w]
  by (cases "readContext w"; auto simp: execInstall_def Let_def split: option.splits)+

lemma keys_distinct:
  "ctxKeyArkContainerRuntimeInfo \<noteq> ctxKeyBizModel" "ctxKeyArkService \<noteq> ctxKeyBizModel"
  "ctxKeyArkService \<noteq> ctxKeyArkContainerRuntimeInfo"
  by (simp_all add: ctxKeyArkService_def ctxKeyBizModel_def ctxKeyArkContainerRuntimeInfo_def)

lemma generate_descriptor:
  "ctx (generateContext F) ctxKeyArkContainerRuntimeInfo =
     Some (VArkContainerRuntimeInfo
       (if podFlag F \<noteq> ''''
        then \<lparr>RunType = ArkContainerRunTypeK8s, Coordinate = podFlag F, Port = portFlag F\<rparr>
        else \<lparr>RunType = ArkContainerRunTypeLocal, Coordinate = '''', Port = portFlag F\<rparr>))"
  by (simp add: generateContext_def Let_def)

lemma run_keeps_descriptor:
  "ctx (snd (snd (executeDeploy E F))) ctxKeyArkContainerRuntimeInfo =
   ctx (generateContext F) ctxKeyArkContainerRuntimeInfo"
  by (simp add: executeDeploy_unfold Let_def build_effects resolve_effects(3) uninstall_effects
      install_effects keys_distinct)

lemma run_puts:
  "map fst (puts (trace (snd (snd (executeDeploy E F))))) =
     [ctxKeyArkService, ctxKeyArkContainerRuntimeInfo] @
     (if (1, Returned True) \<in> set (fst (snd (executeDeploy E F))) then [ctxKeyBizModel] else [])"
  by (simp add: executeDeploy_unfold Let_def build_effects resolve_effects(1) uninstall_effects
      install_effects generate_effects)

lemma sample_run_mvn_fails:
  "fst (deploy env_mvn_fails cli_bundle) = ReturnedAt 0"
  "fst (snd (deploy env_mvn_fails cli_bundle)) = [(0, Returned False)]"
  "trace (snd (snd (deploy env_mvn_fails cli_bundle))) =
     [ArkBuildService, CtxPut ''ark.Service'' VArkService,
      CtxPut ''ark.ContainerRuntimeInfo''
        (VArkContainerRuntimeInfo
          \<lparr>RunType = ArkContainerRunTypeLocal, Coordinate = '''', Port = 1238\<rparr>),
      LogInfo ''build bundle skipped!'',
      CmdBuildCommandWithWorkDir '''' ''mvn'' [''clean'', ''package'', ''-Dmaven.test.skip=true''],
      LogInfo ''start to build bundle.'', CmdExec, CmdWait, CmdGetExitError,
      LogError ''build bundle failed!'']"
  by (simp_all add: model_defs sample_defs)

text \<open>
  Claim C1 fails on the code. The branch of lines 95 to 97 logs "build bundle skipped!" and
  falls through: whatever \<open>doLocalBuildBundle\<close> is, the stage builds the maven command and
  calls \<open>Exec()\<close>, and its result is decided by the subprocess. For the command line
  \<open>--bundle /tmp/app-1.0-ark-biz.jar\<close> in a directory where maven exits with status 1,
  the stage logs that the build is skipped, runs maven in the directory \<open>""\<close>, returns false,
  and the run ends at the build stage: the supplied bundle is never parsed or installed.
\<close>

theorem build_runs_maven_when_bundle_supplied:
  "CmdExec \<in> set (trace (snd (execMavenBuild E F w))) \<and>
   doLocalBuildBundle (deploy_flags env_mvn_fails cli_bundle) = False \<and>
   fst (execMavenBuild env_mvn_fails (deploy_flags env_mvn_fails cli_bundle)
         (generateContext (deploy_flags env_mvn_fails cli_bundle))) = Returned False \<and>
   fst (deploy env_mvn_fails cli_bundle) = ReturnedAt 0 \<and>
   fst (snd (deploy env_mvn_fails cli_bundle)) = [(0, Returned False)] \<and>
   trace (snd (snd (deploy env_mvn_fails cli_bundle))) =
     [ArkBuildService, CtxPut ''ark.Service'' VArkService,
      CtxPut ''ark.ContainerRuntimeInfo''
        (VArkContainerRuntimeInfo
          \<lparr>RunType = ArkContainerRunTypeLocal, Coordinate = '''', Port = 1238\<rparr>),
      LogInfo ''build bundle skipped!'',
      CmdBuildCommandWithWorkDir '''' ''mvn'' [''clean'', ''package'', ''-Dmaven.test.skip=true''],
      LogInfo ''start to build bundle.'', CmdExec, CmdWait, CmdGetExitError,
      LogError ''build bundle failed!'']"
proof -
  from build_calls_runner[of E F w] obtain tl where
    "trace (snd (execMavenBuild E F w)) =
     trace w @ (if \<not> doLocalBuildBundle F then [LogInfo ''build bundle skipped!''] else []) @
     [CmdBuildCommandWithWorkDir (buildFlag F) ''mvn''
        [''clean'', ''package'', ''-Dmaven.test.skip=true''],
      LogInfo ''start to build bundle.'', CmdExec] @ tl" by blast
  then have a: "CmdExec \<in> set (trace (snd (execMavenBuild E F w)))" by simp
  have b: "doLocalBuildBundle (deploy_flags env_mvn_fails cli_bundle) = False"
    "fst (execMavenBuild env_mvn_fails (deploy_flags env_mvn_fails cli_bundle)
         (generateContext (deploy_flags env_mvn_fails cli_bundle))) = Returned False"
    by (simp_all add: model_defs sample_defs)
  show ?thesis using a b by (simp add: sample_run_mvn_fails)
qed

lemma sample_run_launch_fails:
  "fst (deploy env_launch_fails cli_build) = Finished"
  "fst (snd (deploy env_launch_fails cli_build)) =
     [(0, Returned True), (1, Returned True), (2, Returned True), (3, Returned True)]"
  "take 5 (drop 3 (trace (snd (snd (deploy env_launch_fails cli_build))))) =
     [CmdBuildCommandWithWorkDir ''/tmp/proj'' ''mvn''
        [''clean'', ''package'', ''-Dmaven.test.skip=true''],
      LogInfo ''start to build bundle.'', CmdExec, LogError ''build bundle failed!'', CmdWait]"
  "fst (deploy env_launch_hangs cli_build) = BlockedAt 0"
  by (simp_all add: model_defs sample_defs)

text \<open>
  Claim C4 fails on the code. The branch of lines 106 to 108 logs the error of \<open>Exec()\<close> and
  falls through to the receive on \<open>Wait()\<close>: the result of the stage never depends on what
  \<open>Exec()\<close> returned. With a runner whose \<open>Exec()\<close> fails and whose completion channel
  then delivers nil, the stage logs "build bundle failed!", returns true, and all four
  stages run; with one on whose channel nothing is sent after the failed start, the stage
  never returns.
\<close>

theorem launch_error_does_not_fail_build:
  "fst (execMavenBuild (E\<lparr>cmd_Exec := x\<rparr>) F w) = fst (execMavenBuild E F w) \<and>
   cmd_Exec env_launch_fails (buildFlag (deploy_flags env_launch_fails cli_build)) =
     Some ''exec: mvn: executable file not found in PATH'' \<and>
   fst (execMavenBuild env_launch_fails (deploy_flags env_launch_fails cli_build)
         (generateContext (deploy_flags env_launch_fails cli_build))) = Returned True \<and>
   fst (deploy env_launch_fails cli_build) = Finished \<and>
   fst (snd (deploy env_launch_fails cli_build)) =
     [(0, Returned True), (1, Returned True), (2, Returned True), (3, Returned True)] \<and>
   take 5 (drop 3 (trace (snd (snd (deploy env_launch_fails cli_build))))) =
     [CmdBuildCommandWithWorkDir ''/tmp/proj'' ''mvn''
        [''clean'', ''package'', ''-Dmaven.test.skip=true''],
      LogInfo ''start to build bundle.'', CmdExec, LogError ''build bundle failed!'', CmdWait] \<and>
   fst (deploy env_launch_hangs cli_build) = BlockedAt 0"
proof -
  have b: "cmd_Exec env_launch_fails (buildFlag (deploy_flags env_launch_fails cli_build)) =
     Some ''exec: mvn: executable file not found in PATH''"
    "fst (execMavenBuild env_launch_fails (deploy_flags env_launch_fails cli_build)
         (generateContext (deploy_flags env_launch_fails cli_build))) = Returned True"
    by (simp_all add: model_defs sample_defs)
  show ?thesis using b by (simp add: build_ignores_exec sample_run_launch_fails)
qed

text \<open>
  Claim C8. \<open>generateContext\<close> stores under the runtime-info key one descriptor: for a
  non-empty pod flag the Kubernetes variant with that coordinate and the port flag, for an
  empty pod flag the local variant with the port flag and no coordinate. No stage changes
  what the context holds under this key, the context at the end of every run of
  \<open>executeDeploy\<close> holds the descriptor \<open>generateContext\<close> stored, and the key is written
  once in the whole run.
\<close>

theorem runtime_target_selection:
  "ctx (generateContext F) ctxKeyArkContainerRuntimeInfo =
     Some (VArkContainerRuntimeInfo
       (if podFlag F \<noteq> ''''
        then \<lparr>RunType = ArkContainerRunTypeK8s, Coordinate = podFlag F, Port = portFlag F\<rparr>
        else \<lparr>RunType = ArkContainerRunTypeLocal, Coordinate = '''', Port = portFlag F\<rparr>)) \<and>
   ctx (snd (execMavenBuild E F w)) ctxKeyArkContainerRuntimeInfo =
     ctx w ctxKeyArkContainerRuntimeInfo \<and>
   ctx (snd (execParseBizModel E F w)) ctxKeyArkContainerRuntimeInfo =
     ctx w ctxKeyArkContainerRuntimeInfo \<and>
   ctx (snd (execUnInstall E F w)) ctxKeyArkContainerRuntimeInfo =
     ctx w ctxKeyArkContainerRuntimeInfo \<and>
   ctx (snd (execInstall E F w)) ctxKeyArkContainerRuntimeInfo =
     ctx w ctxKeyArkContainerRuntimeInfo \<and>
   ctx (snd (snd (executeDeploy E F))) ctxKeyArkContainerRuntimeInfo =
     ctx (generateContext F) ctxKeyArkContainerRuntimeInfo \<and>
   count_list (map fst (puts (trace (snd (snd (executeDeploy E F))))))
     ctxKeyArkContainerRuntimeInfo = 1"
  by (simp add: generate_descriptor build_effects resolve_effects(3) uninstall_effects
      install_effects run_keeps_descriptor run_puts keys_distinct)

theorem runtime_target_selection_witness:
  "ctx (generateContext (deploy_flags env_ok cli_pod)) ctxKeyArkContainerRuntimeInfo =
     Some (VArkContainerRuntimeInfo
       \<lparr>RunType = ArkContainerRunTypeK8s, Coordinate = ''ns/name'', Port = 1238\<rparr>) \<and>
   ctx (snd (snd (deploy env_ok cli_pod))) ctxKeyArkContainerRuntimeInfo =
     Some (VArkContainerRuntimeInfo
       \<lparr>RunType = ArkContainerRunTypeK8s, Coordinate = ''ns/name'', Port = 1238\<rparr>) \<and>
   ctx (generateContext (deploy_flags env_ok cli_build)) ctxKeyArkContainerRuntimeInfo =
     Some (VArkContainerRuntimeInfo
       \<lparr>RunType = ArkContainerRunTypeLocal, Coordinate = '''', Port = 8080\<rparr>)"
proof -
  have f: "podFlag (deploy_flags env_ok cli_pod) = ''ns/name''"
    "portFlag (deploy_flags env_ok cli_pod) = 1238"
    "podFlag (deploy_flags env_ok cli_build) = ''''"
    "portFlag (deploy_flags env_ok cli_build) = 8080"
    by (simp_all add: deploy_flags_def Args_def parseFlags_def init_flags_def Let_def
        cli_pod_def cli_build_def)
  from runtime_target_selection[of "deploy_flags env_ok cli_pod" env_ok]
       runtime_target_selection[of "deploy_flags env_ok cli_build" env_ok]
  show ?thesis by (simp add: f deploy_def)
qed

text \<open>
  Claim C9, as amended. \<open>generateContext\<close> writes the service key and the runtime-info key,
  once each, and reads nothing. The build stage neither writes nor reads. The resolve stage
  reads nothing and writes the module-descriptor key, once, exactly when it returns true.
  The uninstall and install stages write nothing; what they read is the three keys, in the
  order service, module descriptor, runtime info, up to the first type assertion that
  fails. So in every run of \<open>executeDeploy\<close> the keys written are the service key and the
  runtime-info key, followed by the module-descriptor key exactly when the resolve stage
  was called and returned true; no key is written twice.
\<close>

theorem context_keys_written_at_most_once:
  "map fst (puts (trace (generateContext F))) = [ctxKeyArkService, ctxKeyArkContainerRuntimeInfo] \<and>
   reads (trace (generateContext F)) = [] \<and>
   puts (trace (snd (execMavenBuild E F w))) = puts (trace w) \<and>
   reads (trace (snd (execMavenBuild E F w))) = reads (trace w) \<and>
   map fst (puts (trace (snd (execParseBizModel E F w)))) =
     map fst (puts (trace w)) @
     (if fst (execParseBizModel E F w) = Returned True then [ctxKeyBizModel] else []) \<and>
   reads (trace (snd (execParseBizModel E F w))) = reads (trace w) \<and>
   puts (trace (snd (execUnInstall E F w))) = puts (trace w) \<and>
   (\<exists>n\<le>3. reads (trace (snd (execUnInstall E F w))) =
      reads (trace w) @ take n [ctxKeyArkService, ctxKeyBizModel, ctxKeyArkContainerRuntimeInfo]) \<and>
   puts (trace (snd (execInstall E F w))) = puts (trace w) \<and>
   (\<exists>n\<le>3. reads (trace (snd (execInstall E F w))) =
      reads (trace w) @ take n [ctxKeyArkService, ctxKeyBizModel, ctxKeyArkContainerRuntimeInfo]) \<and>
   map fst (puts (trace (snd (snd (executeDeploy E F))))) =
     [ctxKeyArkService, ctxKeyArkContainerRuntimeInfo] @
     (if (1, Returned True) \<in> set (fst (snd (executeDeploy E F))) then [ctxKeyBizModel] else []) \<and>
   distinct (map fst (puts (trace (snd (snd (executeDeploy E F))))))"
proof -
  have d: "distinct (map fst (puts (trace (snd (snd (executeDeploy E F))))))"
    by (simp add: run_puts keys_distinct)
  show ?thesis
    using d readContext_effects(3)[of w]
    by (simp add: generate_effects build_effects resolve_effects(1,2) uninstall_effects
        install_effects run_puts)
qed

theorem context_keys_written_at_most_once_witness:
  "map fst (puts (trace (snd (snd (deploy env_ok cli_build))))) =
     [ctxKeyArkService, ctxKeyArkContainerRuntimeInfo, ctxKeyBizModel] \<and>
   map fst (puts (trace (snd (snd (deploy env_no_bundle cli_build))))) =
     [ctxKeyArkService, ctxKeyArkContainerRuntimeInfo]"
proof -
  from context_keys_written_at_most_once[of "deploy_flags env_ok cli_build" env_ok]
       context_keys_written_at_most_once[of "deploy_flags env_no_bundle cli_build" env_no_bundle]
  show ?thesis
    using sample_run_ok(2) sample_run_no_bundle(2) by (simp add: deploy_def)
qed

text \<open>
  The claim as stated fails for the module-descriptor key: in the run that finds no bundle
  the resolve stage returns false and the key is written not once but never.
\<close>

theorem module_descriptor_never_written_in_aborted_run:
  "fst (deploy env_no_bundle cli_build) = ReturnedAt 1 \<and>
   count_list (map fst (puts (trace (snd (snd (deploy env_no_bundle cli_build))))))
     ctxKeyBizModel = 0"
proof -
  have "map fst (puts (trace (snd (snd (deploy env_no_bundle cli_build))))) =
     [ctxKeyArkService, ctxKeyArkContainerRuntimeInfo]"
    using sample_run_no_bundle(2) by (simp add: deploy_def run_puts)
  then show ?thesis by (simp add: sample_run_no_bundle(1) keys_distinct)
qed

end
